theory Spec2Isabelle
  imports Complex_Main "HOL-Library.Word"
begin

unbundle bit_operations_syntax

section \<open>The float raycaster backend (raycaster_float.c)\<close>

text \<open>
  The C types \<open>float\<close> and \<open>double\<close> are idealised as \<^typ>\<open>real\<close>: every arithmetic
  operation and every libm call (\<open>sin\<close>, \<open>cos\<close>, \<open>tan\<close>, \<open>atanf\<close>, \<open>sqrt\<close>,
  \<open>fmin\<close>) is exact, there are no NaNs or infinities, and \<open>1 / 0\<close> is \<open>0\<close>. The
  control flow, the integer conversions and the bit operations follow the source
  line by line. A C \<open>int\<close> is an unbounded \<^typ>\<open>int\<close>.
\<close>

subsection \<open>Constants of the headers\<close>

text \<open>
  Modelled from the spec: the headers \<open>raycaster.h\<close> and \<open>raycaster_float.h\<close>, which
  define \<open>SCREEN_WIDTH\<close>, \<open>SCREEN_HEIGHT\<close>, \<open>HORIZON_HEIGHT\<close>, \<open>INV_FACTOR\<close>,
  \<open>MAP_X\<close>, \<open>MAP_Y\<close> and \<open>MAP_XS\<close>, are missing. The values are those of section 6
  of the specification (320, 200, 100, 288, 64, 64); \<open>MAP_XS\<close> is the exponent of the
  power-of-two map width, \<open>MAP_X = 1 << MAP_XS\<close>.
\<close>

definition SCREEN_WIDTH :: int where "SCREEN_WIDTH = 320"
definition SCREEN_HEIGHT :: int where "SCREEN_HEIGHT = 200"
definition HORIZON_HEIGHT :: int where "HORIZON_HEIGHT = 100"
definition INV_FACTOR :: real where "INV_FACTOR = 288"
definition MAP_X :: int where "MAP_X = 64"
definition MAP_Y :: int where "MAP_Y = 64"
definition MAP_XS :: nat where "MAP_XS = 6"

subsection \<open>Conversions between floating point and integers\<close>

text \<open>
  A C cast from a floating type to an integer type discards the fractional part
  (truncation towards zero). \<open>modff\<close> splits a value into an integral part, which it
  stores through its pointer argument, and the fractional part, which it returns; both
  carry the sign of the argument.
\<close>

definition c_trunc :: "real \<Rightarrow> int" where
  "c_trunc v = (if 0 \<le> v then \<lfloor>v\<rfloor> else \<lceil>v\<rceil>)"

definition modff_int :: "real \<Rightarrow> real" where
  "modff_int v = of_int (c_trunc v)"

definition modff_frac :: "real \<Rightarrow> real" where
  "modff_frac v = v - of_int (c_trunc v)"

text \<open>
  Narrowing a floating value to \<open>uint8_t\<close> or \<open>uint16_t\<close> is defined by C only when the
  truncated value is representable in the target type. \<open>fits_u8\<close> and \<open>fits_u16\<close>
  say when that is so; outside that range the model takes the low bits of the
  truncated value.
\<close>

definition fits_u8 :: "real \<Rightarrow> bool" where
  "fits_u8 v = (0 \<le> c_trunc v \<and> c_trunc v < 256)"

definition fits_u16 :: "real \<Rightarrow> bool" where
  "fits_u16 v = (0 \<le> c_trunc v \<and> c_trunc v < 65536)"

definition float_to_u8 :: "real \<Rightarrow> 8 word" where
  "float_to_u8 v = word_of_int (c_trunc v)"

definition float_to_u16 :: "real \<Rightarrow> 16 word" where
  "float_to_u16 v = word_of_int (c_trunc v)"

subsection \<open>The map test\<close>

text \<open>
  \<open>RayCasterFloatIsWall\<close> (lines 94-112 of the source). \<open>g_map\<close> is the packed
  map, an array of bytes defined outside this file; it is a parameter here. The byte read from it is promoted to \<open>int\<close> before the \<open>&\<close>, and the
  \<open>int\<close> result is converted to \<open>bool\<close> (non-zero is true).
\<close>

definition RayCasterFloatIsWall :: "8 word list \<Rightarrow> real \<Rightarrow> real \<Rightarrow> bool" where
  "RayCasterFloatIsWall g_map rayX rayY =
     (let mapX = modff_int rayX;
          mapY = modff_int rayY;
          tileX = c_trunc mapX;
          tileY = c_trunc mapY
      in if tileX < 0 \<or> tileY < 0 \<or> tileX \<ge> MAP_X - 1 \<or> tileY \<ge> MAP_Y - 1 then True
         else uint (g_map ! nat (drop_bit 3 tileX + push_bit (MAP_XS - 3) tileY))
                AND push_bit (nat (8 - (tileX AND 7))) 1 \<noteq> 0)"

text \<open>
  The layout of the specification: bit \<open>n\<close> of the packed map, counted from the most
  significant bit of each byte.
\<close>

definition map_bit :: "8 word list \<Rightarrow> nat \<Rightarrow> bool" where
  "map_bit g_map n = bit (g_map ! (n div 8)) (7 - n mod 8)"

subsection \<open>Distance of a ray\<close>

definition maxDepth :: int where "maxDepth = 100"

definition P2P_DISTANCE :: "real \<Rightarrow> real \<Rightarrow> real \<Rightarrow> real \<Rightarrow> real" where
  "P2P_DISTANCE x1 y1 x2 y2 =
     sqrt ((x1 - x2) * (x1 - x2) + (y1 - y2) * (y1 - y2))"

text \<open>
  The two normalisation loops at the head of \<open>RayCasterFloatDistance\<close>, lines
  129-134 (\<open>while (rayA < 0) rayA += 2.0f * M_PI;\<close> and
  \<open>while (rayA >= 2.0f * M_PI) rayA -= 2.0f * M_PI;\<close>).
\<close>

function angle_wrap_up :: "real \<Rightarrow> real" where
  "angle_wrap_up rayA = (if rayA < 0 then angle_wrap_up (rayA + 2 * pi) else rayA)"
  by pat_completeness auto
termination
proof (relation "measure (\<lambda>rayA. nat \<lceil>- rayA / (2 * pi)\<rceil>)")
  show "wf (measure (\<lambda>rayA. nat \<lceil>- rayA / (2 * pi)\<rceil>))" by simp
next
  fix rayA :: real
  assume neg: "rayA < 0"
  define t where "t = - rayA / (2 * pi)"
  have step: "- (rayA + 2 * pi) / (2 * pi) = t - 1"
    unfolding t_def by (simp add: field_simps)
  have "0 < t"
    unfolding t_def using neg by (simp add: divide_neg_pos)
  then have "0 < \<lceil>t\<rceil>" by simp
  then have "nat \<lceil>t - 1\<rceil> < nat \<lceil>t\<rceil>" by simp
  then show "(rayA + 2 * pi, rayA) \<in> measure (\<lambda>rayA. nat \<lceil>- rayA / (2 * pi)\<rceil>)"
    unfolding in_measure step t_def .
qed

function angle_wrap_down :: "real \<Rightarrow> real" where
  "angle_wrap_down rayA = (if rayA \<ge> 2 * pi then angle_wrap_down (rayA - 2 * pi) else rayA)"
  by pat_completeness auto
termination
proof (relation "measure (\<lambda>rayA. nat \<lfloor>rayA / (2 * pi)\<rfloor>)")
  show "wf (measure (\<lambda>rayA. nat \<lfloor>rayA / (2 * pi)\<rfloor>))" by simp
next
  fix rayA :: real
  assume big: "2 * pi \<le> rayA"
  define t where "t = rayA / (2 * pi)"
  have step: "(rayA - 2 * pi) / (2 * pi) = t - 1"
    unfolding t_def by (simp add: field_simps)
  have "1 \<le> t"
    unfolding t_def using big by (simp add: pos_le_divide_eq)
  then have "1 \<le> \<lfloor>t\<rfloor>" by simp
  then have "nat \<lfloor>t - 1\<rfloor> < nat \<lfloor>t\<rfloor>" by simp
  then show "(rayA - 2 * pi, rayA) \<in> measure (\<lambda>rayA. nat \<lfloor>rayA / (2 * pi)\<rfloor>)"
    unfolding in_measure step t_def .
qed

text \<open>
  The search loop, which the source writes out twice with the same body (lines 171-180
  for the vertical grid lines, lines 209-218 for the horizontal ones):
  \<^verbatim>\<open>
  while (depth < maxDepth) {
      if (RayCasterFloatIsWall(rayX, rayY)) {
          hitDis = P2P_DISTANCE(playerX, playerY, rayX, rayY);
          break;
      } else {
          rayX += xOffset; rayY += yOffset; depth += 1;
      }
  }
  \<close>
  The loop state is \<open>(rayX, rayY, hitDis, depth, iters)\<close>; \<open>iters\<close> is a ghost
  counter of the executions of the loop body and is not a variable of the source.
\<close>

function dda_search ::
  "8 word list \<Rightarrow> real \<Rightarrow> real \<Rightarrow> real \<Rightarrow> real \<Rightarrow> real \<times> real \<times> real \<times> int \<times> nat
     \<Rightarrow> real \<times> real \<times> real \<times> int \<times> nat" where
  "dda_search g_map pX pY xOffset yOffset (rayX, rayY, hitDis, depth, iters) =
     (if depth < maxDepth then
        if RayCasterFloatIsWall g_map rayX rayY
        then (rayX, rayY, P2P_DISTANCE pX pY rayX rayY, depth, iters + 1)
        else dda_search g_map pX pY xOffset yOffset
               (rayX + xOffset, rayY + yOffset, hitDis, depth + 1, iters + 1)
      else (rayX, rayY, hitDis, depth, iters))"
  by pat_completeness auto
termination
  by (relation "measure (\<lambda>(g_map, pX, pY, xOffset, yOffset, rayX, rayY, hitDis, depth, iters).
                   nat (maxDepth - depth))") auto

text \<open>
  The set-up of the vertical search (the branches on \<open>sin(rayA)\<close>, lines 147-168)
  and of the horizontal search (the branches on \<open>cos(rayA)\<close>, lines 185-206); each
  yields
  \<open>(rayX, rayY, xOffset, yOffset, depth)\<close>. \<open>pX\<close> and \<open>pY\<close> are the source's
  parameters \<open>playerX\<close> and \<open>playerY\<close>.
\<close>

definition vert_start :: "real \<Rightarrow> real \<Rightarrow> real \<Rightarrow> real \<Rightarrow> real \<times> real \<times> real \<times> real \<times> int" where
  "vert_start pX pY rayA cotA =
     (if sin rayA > 0.001 then
        (let rayX = of_int (c_trunc pX + 1);
             rayY = (rayX - pX) * cotA + pY;
             xOffset = 1;
             yOffset = xOffset * cotA
         in (rayX, rayY, xOffset, yOffset, 0))
      else if sin rayA < - 0.001 then
        (let rayX = of_int (c_trunc pX) - 0.001;
             rayY = (rayX - pX) * cotA + pY;
             xOffset = - 1;
             yOffset = xOffset * cotA
         in (rayX, rayY, xOffset, yOffset, 0))
      else (pX, pY, 0, 0, maxDepth))"

definition hori_start :: "real \<Rightarrow> real \<Rightarrow> real \<Rightarrow> real \<Rightarrow> real \<times> real \<times> real \<times> real \<times> int" where
  "hori_start pX pY rayA tanA =
     (if cos rayA > 0.001 then
        (let rayY = of_int (c_trunc pY + 1);
             rayX = (rayY - pY) * tanA + pX;
             yOffset = 1;
             xOffset = yOffset * tanA
         in (rayX, rayY, xOffset, yOffset, 0))
      else if cos rayA < - 0.001 then
        (let rayY = of_int (c_trunc pY) - 0.001;
             rayX = (rayY - pY) * tanA + pX;
             yOffset = - 1;
             xOffset = yOffset * tanA
         in (rayX, rayY, xOffset, yOffset, 0))
      else (pX, pY, 0, 0, maxDepth))"

text \<open>
  The two searches as \<open>RayCasterFloatDistance\<close> runs them: the hit distance starts
  at the sentinel \<open>0\<close>, the ghost counter at \<open>0\<close>.
\<close>

definition vert_search :: "8 word list \<Rightarrow> real \<Rightarrow> real \<Rightarrow> real \<Rightarrow> real \<Rightarrow> real \<times> real \<times> real \<times> int \<times> nat" where
  "vert_search g_map pX pY rayA cotA =
     (case vert_start pX pY rayA cotA of
        (rayX, rayY, xOffset, yOffset, depth) \<Rightarrow>
          dda_search g_map pX pY xOffset yOffset (rayX, rayY, 0, depth, 0))"

definition hori_search :: "8 word list \<Rightarrow> real \<Rightarrow> real \<Rightarrow> real \<Rightarrow> real \<Rightarrow> real \<times> real \<times> real \<times> int \<times> nat" where
  "hori_search g_map pX pY rayA tanA =
     (case hori_start pX pY rayA tanA of
        (rayX, rayY, xOffset, yOffset, depth) \<Rightarrow>
          dda_search g_map pX pY xOffset yOffset (rayX, rayY, 0, depth, 0))"

text \<open>
  \<open>RayCasterFloatDistance\<close> returns the distance and writes \<open>*hitOffset\<close> and
  \<open>*hitDirection\<close>; the model returns the triple
  \<open>(distance, hitOffset, hitDirection)\<close>, with \<open>true\<close> and \<open>false\<close> stored in the
  \<open>int\<close> as \<open>1\<close> and \<open>0\<close>.
\<close>

definition RayCasterFloatDistance :: "8 word list \<Rightarrow> real \<Rightarrow> real \<Rightarrow> real \<Rightarrow> real \<times> real \<times> int" where
  "RayCasterFloatDistance g_map pX pY rayA0 =
     (let rayA = angle_wrap_down (angle_wrap_up rayA0);
          tanA = tan rayA;
          cotA = 1 / tanA;
          (vx, vy, vertHitDis, vdepth, viters) = vert_search g_map pX pY rayA cotA;
          (rayX, rayY, horiHitDis, hdepth, hiters) = hori_search g_map pX pY rayA tanA
      in if vertHitDis < horiHitDis
         then (min vertHitDis horiHitDis, vy, 1)
         else (min vertHitDis horiHitDis, rayX, 0))"

subsection \<open>Start and Trace\<close>

record RayCasterFloat =
  playerX :: real
  playerY :: real
  playerA :: real

text \<open>The five values \<open>RayCasterFloatTrace\<close> writes through its pointer arguments.\<close>

record trace_out =
  screenY :: "8 word"
  textureNo :: "8 word"
  textureX :: "8 word"
  textureY :: "16 word"
  textureStep :: "16 word"

definition RayCasterFloatStart :: "RayCasterFloat \<Rightarrow> 16 word \<Rightarrow> 16 word \<Rightarrow> 16 word \<Rightarrow> RayCasterFloat" where
  "RayCasterFloatStart rc px py pa =
     rc\<lparr>playerX := (real (unat px) / 1024) * 4,
        playerY := (real (unat py) / 1024) * 4,
        playerA := (real_of_int (sint pa) / 1024) * 2 * pi\<rparr>"

text \<open>
  The first half of \<open>RayCasterFloatTrace\<close>: the angle of the column
  (\<open>(int16_t) screenX\<close> reads the 16 bits as a signed value), the call of
  \<open>RayCasterFloatDistance\<close> on the stored pose, and the fisheye-corrected distance.
\<close>

definition trace_deltaAngle :: "16 word \<Rightarrow> real" where
  "trace_deltaAngle screenX =
     arctan ((of_int (sint screenX) - of_int SCREEN_WIDTH / 2) / (of_int SCREEN_WIDTH / 2) * pi / 4)"

definition trace_hit :: "8 word list \<Rightarrow> RayCasterFloat \<Rightarrow> 16 word \<Rightarrow> real \<times> real \<times> int" where
  "trace_hit g_map rc screenX =
     RayCasterFloatDistance g_map (playerX rc) (playerY rc)
       (playerA rc + trace_deltaAngle screenX)"

definition trace_distance :: "8 word list \<Rightarrow> RayCasterFloat \<Rightarrow> 16 word \<Rightarrow> real" where
  "trace_distance g_map rc screenX =
     (case trace_hit g_map rc screenX of
        (lineDistance, hitOffset, hitDirection) \<Rightarrow>
          lineDistance * cos (trace_deltaAngle screenX))"

text \<open>
  \<open>RayCasterFloatTrace\<close> itself (lines 246-302). \<open>out0\<close> holds what the five output locations
  contain before the call; the assignments of the source are record updates in the
  source's order. The result is the final content of the output locations and the
  raycaster's own state, which no statement of the function assigns.
\<close>

definition RayCasterFloatTrace ::
  "8 word list \<Rightarrow> RayCasterFloat \<Rightarrow> 16 word \<Rightarrow> trace_out \<Rightarrow> trace_out \<times> RayCasterFloat" where
  "RayCasterFloatTrace g_map rc screenX out0 =
     (case trace_hit g_map rc screenX of
        (lineDistance, hitOffset, hitDirection) \<Rightarrow>
          let distance = trace_distance g_map rc screenX;
              out1 = out0\<lparr>textureX := float_to_u8 (256 * modff_frac hitOffset),
                         textureNo := word_of_int hitDirection,
                         textureY := 0,
                         textureStep := 0\<rparr>
          in if distance > 0 then
               (let tmp = INV_FACTOR / distance;
                    out2 = out1\<lparr>screenY := float_to_u8 tmp\<rparr>;
                    txs = tmp * 2
                in if txs \<noteq> 0 then
                     (let out3 = out2\<lparr>textureStep := float_to_u16 ((256 / txs) * 256)\<rparr>
                      in if txs > of_int SCREEN_HEIGHT then
                           (let wallHeight = (txs - of_int SCREEN_HEIGHT) / 2
                            in (out3\<lparr>textureY := float_to_u16 (wallHeight * (256 / txs) * 256),
                                     screenY := word_of_int HORIZON_HEIGHT\<rparr>, rc))
                         else (out3, rc))
                   else (out2, rc))
             else (out1\<lparr>screenY := 0\<rparr>, rc))"

subsection \<open>Construction and destruction\<close>

text \<open>
  The raycaster objects live on the C heap. The model keeps an explicit store: a map
  from addresses to the blocks that are allocated, and the next unused address.
  \<open>NULL\<close> is \<open>None\<close>. A function pointer is the name of the function it points to.
  The base structure \<open>RayCaster\<close> has the fields \<open>derived\<close>, \<open>Start\<close>, \<open>Trace\<close> and
  \<open>Destruct\<close> that this file assigns; a field that nothing has assigned yet is
  \<open>None\<close>.
\<close>

type_synonym addr = nat

datatype fn_ptr =
  RayCasterFloatStart_fn | RayCasterFloatTrace_fn | RayCasterFloatDestruct_fn
  | RayCasterDestruct_fn

record RayCaster =
  derived :: "addr option"
  Start :: "fn_ptr option"
  Trace :: "fn_ptr option"
  Destruct :: "fn_ptr option"

datatype block = RayCaster_block RayCaster | RayCasterFloat_block "RayCasterFloat option"

record heap =
  blocks :: "addr \<rightharpoonup> block"
  brk :: addr

datatype fault = NullDereference | InvalidPointer | BadFunctionPointer

text \<open>
  \<open>malloc\<close> either fails and returns \<open>NULL\<close>, or returns a fresh block; which of the
  two happens is the argument \<open>ok\<close>. \<open>free(NULL)\<close> does nothing.
\<close>

definition c_malloc :: "bool \<Rightarrow> block \<Rightarrow> heap \<Rightarrow> addr option \<times> heap" where
  "c_malloc ok b h =
     (if ok then (Some (brk h), h\<lparr>blocks := (blocks h)(brk h \<mapsto> b), brk := Suc (brk h)\<rparr>)
      else (None, h))"

definition c_free :: "addr option \<Rightarrow> heap \<Rightarrow> heap" where
  "c_free p h = (case p of None \<Rightarrow> h | Some a \<Rightarrow> h\<lparr>blocks := (blocks h)(a := None)\<rparr>)"

text \<open>
  Modelled from the spec: \<open>RayCasterConstruct\<close> and \<open>RayCasterDestruct\<close> are defined in
  \<open>raycaster.c\<close>, which is missing. Following the backend lifecycle of the specification
  (\<open>Construct\<close>, then \<open>Start\<close> and \<open>Trace\<close>, then \<open>Destruct\<close>, which releases the
  backend's storage), \<open>RayCasterConstruct\<close> allocates the base structure and installs
  \<open>RayCasterDestruct\<close> in its \<open>Destruct\<close> slot, and \<open>RayCasterDestruct\<close> frees the
  base structure.
\<close>

definition RayCasterConstruct :: "bool \<Rightarrow> heap \<Rightarrow> addr option \<times> heap" where
  "RayCasterConstruct ok h =
     c_malloc ok (RayCaster_block
       \<lparr>derived = None, Start = None, Trace = None, Destruct = Some RayCasterDestruct_fn\<rparr>) h"

definition RayCasterDestruct :: "addr \<Rightarrow> heap \<Rightarrow> heap" where
  "RayCasterDestruct rayCaster h = c_free (Some rayCaster) h"

text \<open>\<open>RayCasterFloatDestruct\<close>: \<open>free(rayCaster->derived); RayCasterDestruct(rayCaster);\<close>\<close>

definition RayCasterFloatDestruct :: "addr \<Rightarrow> heap \<Rightarrow> fault + heap" where
  "RayCasterFloatDestruct rayCaster h =
     (case blocks h rayCaster of
        Some (RayCaster_block r) \<Rightarrow> Inr (RayCasterDestruct rayCaster (c_free (derived r) h))
      | _ \<Rightarrow> Inl InvalidPointer)"

text \<open>The indirect call \<open>rayCaster->Destruct(rayCaster)\<close>.\<close>

definition call_Destruct :: "addr option \<Rightarrow> heap \<Rightarrow> fault + heap" where
  "call_Destruct rayCaster h =
     (case rayCaster of
        None \<Rightarrow> Inl NullDereference
      | Some p \<Rightarrow>
          (case blocks h p of
             Some (RayCaster_block r) \<Rightarrow>
               (case Destruct r of
                  Some RayCasterDestruct_fn \<Rightarrow> Inr (RayCasterDestruct p h)
                | Some RayCasterFloatDestruct_fn \<Rightarrow> RayCasterFloatDestruct p h
                | _ \<Rightarrow> Inl BadFunctionPointer)
           | _ \<Rightarrow> Inl InvalidPointer))"

text \<open>
  \<open>RayCasterFloatConstruct\<close> (lines 68-87). \<open>ok_base\<close> and \<open>ok_float\<close> say whether the allocation
  inside \<open>RayCasterConstruct\<close> and the \<open>malloc\<close> of the \<open>RayCasterFloat\<close> succeed. The
  result is the returned pointer and the heap, or the fault of dereferencing a
  pointer that is \<open>NULL\<close>.
\<close>

definition RayCasterFloatConstruct :: "bool \<Rightarrow> bool \<Rightarrow> heap \<Rightarrow> fault + (addr option \<times> heap)" where
  "RayCasterFloatConstruct ok_base ok_float h =
     (case RayCasterConstruct ok_base h of
        (rayCaster, h1) \<Rightarrow>
          (case c_malloc ok_float (RayCasterFloat_block None) h1 of
             (rayCasterFloat, h2) \<Rightarrow>
               (case rayCasterFloat of
                  None \<Rightarrow>
                    (case call_Destruct rayCaster h2 of
                       Inl e \<Rightarrow> Inl e
                     | Inr h3 \<Rightarrow> Inr (None, h3))
                | Some q \<Rightarrow>
                    (case rayCaster of
                       None \<Rightarrow> Inl NullDereference
                     | Some p \<Rightarrow>
                         (case blocks h2 p of
                            Some (RayCaster_block r) \<Rightarrow>
                              Inr (Some p,
                                   h2\<lparr>blocks := (blocks h2)(p \<mapsto> RayCaster_block
                                        (r\<lparr>derived := Some q,
                                           Start := Some RayCasterFloatStart_fn,
                                           Trace := Some RayCasterFloatTrace_fn,
                                           Destruct := Some RayCasterFloatDestruct_fn\<rparr>))\<rparr>)
                          | _ \<Rightarrow> Inl InvalidPointer)))))"

subsection \<open>Sample inputs\<close>

text \<open>
  \<open>demo_map\<close> is a 512-byte map that is empty except for byte 16, whose two top bits
  are set; \<open>corner_map\<close> is empty except for the top bit of byte 0; \<open>empty_map\<close>
  has no bit set. The others are an
  initial content of the raycaster state and of the output locations.
\<close>

definition demo_map :: "8 word list" where
  "demo_map = (replicate 512 0)[16 := 0xC0]"

definition empty_map :: "8 word list" where
  "empty_map = replicate 512 0"

definition corner_map :: "8 word list" where
  "corner_map = (replicate 512 0)[0 := 0x80]"

definition rc_init :: RayCasterFloat where
  "rc_init = \<lparr>playerX = 0, playerY = 0, playerA = 0\<rparr>"

definition out_init :: trace_out where
  "out_init = \<lparr>screenY = 0, textureNo = 0, textureX = 0, textureY = 0, textureStep = 0\<rparr>"

section \<open>Properties\<close>

declare dda_search.simps [simp del] angle_wrap_up.simps [simp del]
  angle_wrap_down.simps [simp del]

subsection \<open>Helper lemmas: conversions\<close>

lemma c_trunc_of_int: "c_trunc (of_int n) = n"
  by (simp add: c_trunc_def)

lemma c_trunc_idem: "c_trunc (modff_int v) = c_trunc v"
  by (simp add: modff_int_def c_trunc_of_int)

lemma c_trunc_nonneg: "0 \<le> v \<Longrightarrow> 0 \<le> c_trunc v"
  by (simp add: c_trunc_def)

lemma c_trunc_le: "0 \<le> v \<Longrightarrow> v \<le> of_int n \<Longrightarrow> c_trunc v \<le> n"
  by (simp add: c_trunc_def floor_le_iff)

lemma c_trunc_neg: "v \<le> - 1 \<Longrightarrow> c_trunc v < 0"
  by (simp add: c_trunc_def ceiling_less_iff)

lemma c_trunc_ge: "of_int n \<le> v \<Longrightarrow> 0 \<le> n \<Longrightarrow> n \<le> c_trunc v"
  by (simp add: c_trunc_def le_floor_iff)

lemma unat_float_to_u8:
  assumes "0 \<le> v" and "v \<le> 100"
  shows "unat (float_to_u8 v) \<le> 100"
proof -
  have lo: "0 \<le> c_trunc v" using assms(1) by (rule c_trunc_nonneg)
  have hi: "c_trunc v \<le> 100" using c_trunc_le [of v 100] assms by simp
  have "uint (word_of_int (c_trunc v) :: 8 word) = c_trunc v"
    using lo hi by (simp add: uint_word_of_int take_bit_eq_mod)
  then have "unat (float_to_u8 v) = nat (c_trunc v)"
    by (simp add: float_to_u8_def unat_eq_nat_uint del: of_int_eq_iff)
  then show ?thesis using hi by simp
qed

subsection \<open>Helper lemmas: the map test\<close>

lemma and_7_mod: "(x::int) AND 7 = x mod 8"
  using take_bit_eq_mask [of 3 x] by (simp add: mask_eq_exp_minus_1 take_bit_eq_mod)

lemma and_pow2_bit: "((a::int) AND 2 ^ n \<noteq> 0) = bit a n"
  using bit_iff_and_push_bit_not_eq_0 [of a n] by simp

lemma divmod8:
  fixes k s :: nat
  assumes "s < 8"
  shows "(8 * k + s) div 8 = k" and "(8 * k + s) mod 8 = s"
  using assms by simp_all

text \<open>
  What the source formula tests for a tile inside the bounds: bit
  \<open>8 - (tileX & 7)\<close> of byte \<open>(tileX >> 3) + (tileY << 3)\<close>, counted from the least
  significant bit.
\<close>

lemma IsWall_tested_bit:
  assumes "0 \<le> c_trunc rayX" and "c_trunc rayX < MAP_X - 1"
    and "0 \<le> c_trunc rayY" and "c_trunc rayY < MAP_Y - 1"
  shows "RayCasterFloatIsWall g_map rayX rayY \<longleftrightarrow>
           bit (g_map ! nat (c_trunc rayX div 8 + c_trunc rayY * 8))
               (nat (8 - c_trunc rayX mod 8))"
proof -
  have idx: "nat (drop_bit 3 (c_trunc rayX) + push_bit 3 (c_trunc rayY)) =
             nat (c_trunc rayX div 8 + c_trunc rayY * 8)"
    by (simp add: drop_bit_eq_div push_bit_eq_mult)
  show ?thesis
    using assms
    by (auto simp add: RayCasterFloatIsWall_def c_trunc_idem MAP_X_def MAP_Y_def MAP_XS_def
        Let_def and_7_mod idx bit_uint_iff and_pow2_bit dest: bit_imp_le_length)
qed

text \<open>
  In the layout of the specification that bit is the one of the cell to the left:
  a cell whose column is a multiple of 8 is never solid (the mask \<open>1 << 8\<close> selects
  no bit of a byte), and any other cell \<open>(x, y)\<close> is solid exactly when bit
  \<open>y * MAP_X + x - 1\<close> is set.
\<close>

lemma IsWall_in_bounds:
  assumes "0 \<le> c_trunc rayX" and "c_trunc rayX < MAP_X - 1"
    and "0 \<le> c_trunc rayY" and "c_trunc rayY < MAP_Y - 1"
  shows "RayCasterFloatIsWall g_map rayX rayY \<longleftrightarrow>
           c_trunc rayX mod 8 \<noteq> 0 \<and>
           map_bit g_map (nat (c_trunc rayY * MAP_X + c_trunc rayX) - 1)"
proof -
  define x where "x = c_trunc rayX"
  define y where "y = c_trunc rayY"
  have bounds: "0 \<le> x" "x < 63" "0 \<le> y" "y < 63"
    using assms by (simp_all add: x_def y_def MAP_X_def MAP_Y_def)
  have code: "RayCasterFloatIsWall g_map rayX rayY \<longleftrightarrow>
                bit (g_map ! nat (x div 8 + y * 8)) (nat (8 - x mod 8))"
    unfolding x_def y_def using assms by (rule IsWall_tested_bit)
  show ?thesis
  proof (cases "x mod 8 = 0")
    case True
    have "\<not> bit (g_map ! nat (x div 8 + y * 8)) (8::nat)"
      using bit_imp_le_length [of "g_map ! nat (x div 8 + y * 8)" 8] by auto
    then show ?thesis using True code by (simp add: x_def)
  next
    case False
    define r where "r = nat (x mod 8)"
    define k where "k = nat (x div 8 + y * 8)"
    have r: "1 \<le> r" "r < 8" using False bounds by (simp_all add: r_def nat_less_iff)
    have "y * 64 + x = 8 * (x div 8 + y * 8) + x mod 8" by simp
    moreover have "0 \<le> x div 8 + y * 8" "0 \<le> x mod 8" using bounds by simp_all
    ultimately have "nat (y * 64 + x) = 8 * k + r"
      unfolding k_def r_def
      by (simp only: nat_add_distrib nat_mult_distrib mult_nonneg_nonneg zero_le_numeral
          nat_numeral)
    then have n: "nat (y * MAP_X + x) - 1 = 8 * k + (r - 1)"
      using r by (simp add: MAP_X_def)
    have b: "7 - (r - 1) = nat (8 - x mod 8)" using r by (simp add: r_def)
    have "map_bit g_map (nat (y * MAP_X + x) - 1) = bit (g_map ! k) (7 - (r - 1))"
      unfolding map_bit_def n using r by (simp only: divmod8)
    then show ?thesis using False code
      unfolding x_def [symmetric] y_def [symmetric] by (simp only: b k_def simp_thms)
  qed
qed

text \<open>The guard of \<open>RayCasterFloatIsWall\<close>, on the tile indices it computes.\<close>

lemma IsWall_guard:
  assumes "c_trunc rayX < 0 \<or> c_trunc rayY < 0 \<or> c_trunc rayX \<ge> MAP_X - 1 \<or> c_trunc rayY \<ge> MAP_Y - 1"
  shows "RayCasterFloatIsWall g_map rayX rayY"
  using assms by (simp add: RayCasterFloatIsWall_def c_trunc_idem Let_def)

text \<open>
  The guard works on truncated coordinates, and truncation rounds towards zero: a
  coordinate strictly between \<open>-1\<close> and \<open>0\<close> has integer floor \<open>-1\<close> but tile index
  \<open>0\<close>. The guard does not fire for it, and the mask for tile column \<open>0\<close> selects no
  bit, so such a point is not solid in any map (as long as the other coordinate is
  inside the bounds).
\<close>

lemma c_trunc_gap: "- 1 < v \<Longrightarrow> v < 0 \<Longrightarrow> c_trunc v = 0 \<and> \<lfloor>v\<rfloor> = - 1"
  by (simp add: c_trunc_def ceiling_eq_iff floor_eq_iff)

lemma IsWall_truncation_gap:
  assumes "- 1 < rayX" and "rayX < 0"
    and "0 \<le> c_trunc rayY" and "c_trunc rayY < MAP_Y - 1"
  shows "\<lfloor>rayX\<rfloor> < 0 \<and> RayCasterFloatIsWall g_map rayX rayY = False"
proof -
  have t: "c_trunc rayX = 0" "\<lfloor>rayX\<rfloor> = - 1"
    using c_trunc_gap [OF assms(1,2)] by simp_all
  have "RayCasterFloatIsWall g_map rayX rayY \<longleftrightarrow>
          bit (g_map ! nat (c_trunc rayX div 8 + c_trunc rayY * 8)) (nat (8 - c_trunc rayX mod 8))"
    using assms(3,4) by (intro IsWall_tested_bit) (simp_all add: t MAP_X_def)
  moreover have "\<not> bit (g_map ! nat (c_trunc rayY * 8)) (8::nat)"
    using bit_imp_le_length [of "g_map ! nat (c_trunc rayY * 8)" 8] by auto
  ultimately show ?thesis by (simp add: t)
qed

lemma floor_ge_c_trunc:
  assumes "n \<le> \<lfloor>v\<rfloor>" and "0 \<le> n"
  shows "n \<le> c_trunc v"
proof -
  have "of_int n \<le> v" using assms(1) by (simp add: le_floor_iff)
  then show ?thesis using assms(2) by (rule c_trunc_ge)
qed

subsection \<open>Helper lemmas: the search loop\<close>

lemma dda_search_inv:
  "(case s of (rayX, rayY, hitDis, depth, iters) \<Rightarrow> depth \<le> maxDepth) \<Longrightarrow>
     (case (s, dda_search g_map pX pY xOffset yOffset s) of
        ((rayX, rayY, hitDis, depth, iters), (rx, ry, dis, d, n)) \<Rightarrow>
          int n \<le> int iters + (maxDepth - depth) \<and>
          (d = maxDepth \<and> dis = hitDis \<or>
           d < maxDepth \<and> RayCasterFloatIsWall g_map rx ry \<and> dis = P2P_DISTANCE pX pY rx ry))"
proof (induction g_map pX pY xOffset yOffset s rule: dda_search.induct)
  case (1 g_map pX pY xOffset yOffset rayX rayY hitDis depth iters)
  show ?case
  proof (cases "depth < maxDepth")
    case False
    with "1.prems" show ?thesis by (simp add: dda_search.simps)
  next
    case running: True
    show ?thesis
    proof (cases "RayCasterFloatIsWall g_map rayX rayY")
      case True
      with running show ?thesis by (simp add: dda_search.simps)
    next
      case False
      with running "1.IH" show ?thesis
        by (subst dda_search.simps) (auto split: prod.splits)
    qed
  qed
qed

lemma dda_search_bound:
  "depth \<le> maxDepth \<Longrightarrow>
     (case dda_search g_map pX pY xOffset yOffset (rayX, rayY, hitDis, depth, iters) of
        (rx, ry, dis, d, n) \<Rightarrow>
          int n \<le> int iters + (maxDepth - depth) \<and>
          (d = maxDepth \<and> dis = hitDis \<or>
           d < maxDepth \<and> RayCasterFloatIsWall g_map rx ry \<and> dis = P2P_DISTANCE pX pY rx ry))"
  using dda_search_inv [of "(rayX, rayY, hitDis, depth, iters)" g_map pX pY xOffset yOffset]
  by simp

lemma vert_start_depth:
  "(case vert_start pX pY rayA cotA of (rayX, rayY, xOffset, yOffset, depth) \<Rightarrow>
      depth = 0 \<or> depth = maxDepth)"
  by (simp add: vert_start_def Let_def)

lemma hori_start_depth:
  "(case hori_start pX pY rayA tanA of (rayX, rayY, xOffset, yOffset, depth) \<Rightarrow>
      depth = 0 \<or> depth = maxDepth)"
  by (simp add: hori_start_def Let_def)

lemma vert_search_bound:
  "(case vert_search g_map pX pY rayA cotA of
      (rx, ry, dis, d, n) \<Rightarrow>
        int n \<le> maxDepth \<and>
        (d = maxDepth \<and> dis = 0 \<or>
         d < maxDepth \<and> RayCasterFloatIsWall g_map rx ry \<and> dis = P2P_DISTANCE pX pY rx ry))"
proof -
  obtain rayX rayY xOffset yOffset depth
    where st: "vert_start pX pY rayA cotA = (rayX, rayY, xOffset, yOffset, depth)"
    by (cases "vert_start pX pY rayA cotA") auto
  with vert_start_depth [of pX pY rayA cotA] have "depth = 0 \<or> depth = maxDepth"
    by simp
  then have "0 \<le> depth" "depth \<le> maxDepth" by (auto simp: maxDepth_def)
  with dda_search_bound [where depth = depth and g_map = g_map and pX = pX and pY = pY
      and xOffset = xOffset and yOffset = yOffset and rayX = rayX and rayY = rayY
      and hitDis = 0 and iters = 0]
  show ?thesis by (auto simp: vert_search_def st split: prod.splits)
qed

lemma hori_search_bound:
  "(case hori_search g_map pX pY rayA tanA of
      (rx, ry, dis, d, n) \<Rightarrow>
        int n \<le> maxDepth \<and>
        (d = maxDepth \<and> dis = 0 \<or>
         d < maxDepth \<and> RayCasterFloatIsWall g_map rx ry \<and> dis = P2P_DISTANCE pX pY rx ry))"
proof -
  obtain rayX rayY xOffset yOffset depth
    where st: "hori_start pX pY rayA tanA = (rayX, rayY, xOffset, yOffset, depth)"
    by (cases "hori_start pX pY rayA tanA") auto
  with hori_start_depth [of pX pY rayA tanA] have "depth = 0 \<or> depth = maxDepth"
    by simp
  then have "0 \<le> depth" "depth \<le> maxDepth" by (auto simp: maxDepth_def)
  with dda_search_bound [where depth = depth and g_map = g_map and pX = pX and pY = pY
      and xOffset = xOffset and yOffset = yOffset and rayX = rayX and rayY = rayY
      and hitDis = 0 and iters = 0]
  show ?thesis by (auto simp: hori_search_def st split: prod.splits)
qed

subsection \<open>Helper lemmas: worked rays\<close>

text \<open>
  The pose \<open>Start(384, 384, 0)\<close> is the point \<open>(1.5, 1.5)\<close> with angle \<open>0\<close>; the
  pose \<open>Start(384, 384, 128)\<close> is the same point with angle \<open>\<pi>/4\<close>. Column 160 is
  the middle of the screen, where \<open>deltaAngle\<close> is \<open>0\<close>. In \<open>demo_map\<close> the source
  formula finds the tiles \<open>(1, 2)\<close> and \<open>(2, 2)\<close> solid.
\<close>

lemma wrap_id: "0 \<le> a \<Longrightarrow> a < 2 * pi \<Longrightarrow> angle_wrap_down (angle_wrap_up a) = a"
  by (simp add: angle_wrap_up.simps angle_wrap_down.simps)

lemma demo_wall_1_2: "RayCasterFloatIsWall demo_map (3/2) 2"
  by (simp add: demo_map_def RayCasterFloatIsWall_def modff_int_def c_trunc_def
      MAP_X_def MAP_Y_def MAP_XS_def)

lemma demo_wall_2_2: "RayCasterFloatIsWall demo_map 2 2"
  by (simp add: demo_map_def RayCasterFloatIsWall_def modff_int_def c_trunc_def
      MAP_X_def MAP_Y_def MAP_XS_def)

lemma vert_axis: "vert_search demo_map (3/2) (3/2) 0 cotA = (3/2, 3/2, 0, maxDepth, 0)"
  by (simp add: vert_search_def vert_start_def dda_search.simps)

lemma p2p_half: "P2P_DISTANCE (3/2) (3/2) (3/2) 2 = 1/2"
proof -
  have "sqrt ((1/2)\<^sup>2) = (1/2::real)" by (simp only: real_sqrt_abs)
  then show ?thesis by (simp add: P2P_DISTANCE_def power2_eq_square)
qed

lemma hori_axis: "hori_search demo_map (3/2) (3/2) 0 0 = (3/2, 2, 1/2, 0, 1)"
  by (simp add: hori_search_def hori_start_def dda_search.simps c_trunc_def maxDepth_def
      demo_wall_1_2 p2p_half)

lemma dist_axis: "RayCasterFloatDistance demo_map (3/2) (3/2) 0 = (0, 3/2, 1)"
  by (simp add: RayCasterFloatDistance_def wrap_id vert_axis hori_axis)

lemma sin_diag: "sin (pi / 4) > (0.001::real)"
proof -
  have s: "1 \<le> sqrt 2" by simp
  have "(0.001::real) < 1 / 2" by simp
  also have "\<dots> \<le> sqrt 2 / 2" using s by linarith
  finally show ?thesis by (simp only: sin_45)
qed

lemma cos_diag: "cos (pi / 4) > (0.001::real)"
proof -
  have s: "1 \<le> sqrt 2" by simp
  have "(0.001::real) < 1 / 2" by simp
  also have "\<dots> \<le> sqrt 2 / 2" using s by linarith
  finally show ?thesis by (simp only: cos_45)
qed

lemma wrap_diag: "angle_wrap_down (angle_wrap_up (pi / 4)) = pi / 4"
  by (rule wrap_id) simp_all

lemma p2p_diag: "P2P_DISTANCE (3/2) (3/2) 2 2 = sqrt (1/2)"
  by (simp add: P2P_DISTANCE_def)

lemma vert_diag: "vert_search demo_map (3/2) (3/2) (pi / 4) 1 = (2, 2, sqrt (1/2), 0, 1)"
  using sin_diag
  by (simp add: vert_search_def vert_start_def dda_search.simps c_trunc_def maxDepth_def
      demo_wall_2_2 p2p_diag)

lemma hori_diag: "hori_search demo_map (3/2) (3/2) (pi / 4) 1 = (2, 2, sqrt (1/2), 0, 1)"
  using cos_diag
  by (simp add: hori_search_def hori_start_def dda_search.simps c_trunc_def maxDepth_def
      demo_wall_2_2 p2p_diag)

lemma dist_diag: "RayCasterFloatDistance demo_map (3/2) (3/2) (pi / 4) = (sqrt (1/2), 2, 0)"
  by (simp add: RayCasterFloatDistance_def wrap_diag tan_45 vert_diag hori_diag)

lemma delta_mid: "trace_deltaAngle 160 = 0"
  by (simp add: trace_deltaAngle_def SCREEN_WIDTH_def)

lemma start_axis:
  "RayCasterFloatStart rc 384 384 0 = rc\<lparr>playerX := 3/2, playerY := 3/2, playerA := 0\<rparr>"
  by (simp add: RayCasterFloatStart_def)

lemma start_diag:
  "RayCasterFloatStart rc 384 384 128 = rc\<lparr>playerX := 3/2, playerY := 3/2, playerA := pi / 4\<rparr>"
  by (simp add: RayCasterFloatStart_def)

lemma hit_axis: "trace_hit demo_map (RayCasterFloatStart rc 384 384 0) 160 = (0, 3/2, 1)"
  by (simp add: trace_hit_def start_axis delta_mid dist_axis)

lemma distance_axis: "trace_distance demo_map (RayCasterFloatStart rc 384 384 0) 160 = 0"
  by (simp add: trace_distance_def hit_axis)

lemma hit_diag:
  "trace_hit demo_map (RayCasterFloatStart rc 384 384 128) 160 = (sqrt (1/2), 2, 0)"
  by (simp add: trace_hit_def start_diag delta_mid dist_diag)

lemma distance_diag:
  "trace_distance demo_map (RayCasterFloatStart rc 384 384 128) 160 = sqrt (1/2)"
  by (simp add: trace_distance_def hit_diag delta_mid)

lemma sqrt_half_bounds: "0 < sqrt (1/2::real)" "sqrt (1/2::real) \<le> 1"
proof -
  show "0 < sqrt (1/2::real)" by simp
  have "sqrt (1/2::real) \<le> sqrt 1" by (rule real_sqrt_le_mono) simp
  then show "sqrt (1/2::real) \<le> 1" by simp
qed

lemma half_height_diag: "288 \<le> INV_FACTOR / sqrt (1/2)"
proof -
  have "288 * sqrt (1/2::real) \<le> 288 * 1"
    using sqrt_half_bounds(2) by (rule mult_left_mono) simp
  then show ?thesis
    using sqrt_half_bounds(1) by (simp add: INV_FACTOR_def pos_le_divide_eq)
qed

text \<open>
  A third ray: the pose \<open>Start(384, 256, 640)\<close> is the point \<open>(1.5, 1)\<close> with angle
  \<open>5\<pi>/4\<close>, looking down and to the left in \<open>empty_map\<close>. Both searches leave the map
  through its corner; the horizontal one is the nearer and stops at
  \<open>(-0.501, -1.001)\<close>.
\<close>

lemma angle_225: "5 * pi / 4 = pi / 4 + pi"
  by simp

lemma sin_225: "sin (5 * pi / 4) < - (0.001::real)"
  unfolding angle_225 sin_periodic_pi using sin_diag by simp

lemma cos_225: "cos (5 * pi / 4) < - (0.001::real)"
  unfolding angle_225 cos_periodic_pi using cos_diag by simp

lemma tan_225: "tan (5 * pi / 4) = 1"
  unfolding angle_225 tan_periodic_pi by (rule tan_45)

lemma wrap_225: "angle_wrap_down (angle_wrap_up (5 * pi / 4)) = 5 * pi / 4"
  by (rule wrap_id) simp_all

lemma c_trunc_225:
  "c_trunc (999/1000) = 0" "c_trunc (499/1000) = 0" "c_trunc (- (1/1000)) = 0"
  "c_trunc (- (501/1000)) = 0" "c_trunc (- (1001/1000)) = - 1"
  "c_trunc (- (1501/1000)) = - 1" "c_trunc (1499/1000) = 1"
  by (simp_all add: c_trunc_def ceiling_eq_iff floor_eq_iff)

lemma walls_225:
  "RayCasterFloatIsWall empty_map (999/1000) (499/1000) = False"
  "RayCasterFloatIsWall empty_map (- (1/1000)) (- (501/1000)) = False"
  "RayCasterFloatIsWall empty_map (- (1001/1000)) (- (1501/1000))"
  "RayCasterFloatIsWall empty_map (1499/1000) (999/1000) = False"
  "RayCasterFloatIsWall empty_map (499/1000) (- (1/1000)) = False"
  "RayCasterFloatIsWall empty_map (- (501/1000)) (- (1001/1000))"
  by (simp_all add: RayCasterFloatIsWall_def c_trunc_idem c_trunc_225 empty_map_def
      MAP_X_def MAP_Y_def MAP_XS_def)

lemma vert_225:
  "vert_search empty_map (3/2) 1 (5 * pi / 4) 1 =
     (- (1001/1000), - (1501/1000),
      P2P_DISTANCE (3/2) 1 (- (1001/1000)) (- (1501/1000)), 2, 3)"
  using sin_225
  by (simp add: vert_search_def vert_start_def dda_search.simps c_trunc_def maxDepth_def
      walls_225 Let_def)

lemma hori_225:
  "hori_search empty_map (3/2) 1 (5 * pi / 4) 1 =
     (- (501/1000), - (1001/1000),
      P2P_DISTANCE (3/2) 1 (- (501/1000)) (- (1001/1000)), 2, 3)"
  using cos_225
  by (simp add: hori_search_def hori_start_def dda_search.simps c_trunc_def maxDepth_def
      walls_225 Let_def)

lemma dist_225:
  "RayCasterFloatDistance empty_map (3/2) 1 (5 * pi / 4) =
     (P2P_DISTANCE (3/2) 1 (- (501/1000)) (- (1001/1000)), - (501/1000), 0)"
  by (simp add: RayCasterFloatDistance_def wrap_225 tan_225 vert_225 hori_225
      P2P_DISTANCE_def)

lemma start_225:
  "RayCasterFloatStart rc 384 256 640 =
     rc\<lparr>playerX := 3/2, playerY := 1, playerA := 5 * pi / 4\<rparr>"
  by (simp add: RayCasterFloatStart_def)

lemma hit_225:
  "trace_hit empty_map (RayCasterFloatStart rc 384 256 640) 160 =
     (P2P_DISTANCE (3/2) 1 (- (501/1000)) (- (1001/1000)), - (501/1000), 0)"
  by (simp add: trace_hit_def start_225 delta_mid dist_225)

lemma frac_225:
  "256 * modff_frac (- (501/1000)) = - (16032 / 125)"
  "fits_u8 (- (16032 / 125)) = False"
  by (simp_all add: modff_frac_def c_trunc_def fits_u8_def ceiling_eq_iff)

text \<open>
  Any wall nearer than \<open>9/8\<close> makes the half-height \<open>INV_FACTOR / distance\<close> too
  large for \<open>uint8_t\<close>.
\<close>

lemma half_height_unfit:
  assumes "0 < d" and "d \<le> 9/8"
  shows "fits_u8 (INV_FACTOR / d) = False"
proof -
  have "256 * d \<le> 288" using assms(2) by simp
  then have big: "256 \<le> INV_FACTOR / d"
    using assms(1) by (simp add: INV_FACTOR_def pos_le_divide_eq)
  then have "0 \<le> INV_FACTOR / d" by linarith
  moreover from big have "(256::int) \<le> \<lfloor>INV_FACTOR / d\<rfloor>"
    by (simp add: le_floor_iff)
  ultimately show ?thesis by (simp add: fits_u8_def c_trunc_def)
qed

text \<open>
  The rule the selection at the end of \<open>RayCasterFloatDistance\<close> follows when the
  vertical search has left its distance at \<open>0\<close> and the horizontal search has hit a
  wall: the comparison \<open>0 < horiHitDis\<close> holds, so the vertical side is reported, with
  distance \<open>fmin(0, horiHitDis) = 0\<close>.
\<close>

lemma Distance_vertical_sentinel:
  assumes "rayA = angle_wrap_down (angle_wrap_up rayA0)"
    and "vert_search g_map pX pY rayA (1 / tan rayA) = (vx, vy, 0, vdepth, viters)"
    and "hori_search g_map pX pY rayA (tan rayA) = (rayX, rayY, horiHitDis, hdepth, hiters)"
    and "0 < horiHitDis"
  shows "RayCasterFloatDistance g_map pX pY rayA0 = (0, vy, 1)"
  using assms by (simp add: RayCasterFloatDistance_def Let_def)

text \<open>
  The other way round: the horizontal search has left its distance at \<open>0\<close> and the
  vertical search has hit a wall. \<open>vertHitDis < 0\<close> fails, so the horizontal side is
  reported, again with distance \<open>0\<close>.
\<close>

lemma Distance_horizontal_sentinel:
  assumes "rayA = angle_wrap_down (angle_wrap_up rayA0)"
    and "vert_search g_map pX pY rayA (1 / tan rayA) = (vx, vy, vertHitDis, vdepth, viters)"
    and "hori_search g_map pX pY rayA (tan rayA) = (rayX, rayY, 0, hdepth, hiters)"
    and "0 < vertHitDis"
  shows "RayCasterFloatDistance g_map pX pY rayA0 = (0, rayX, 0)"
  using assms by (simp add: RayCasterFloatDistance_def Let_def)

subsection \<open>The map layout (C1)\<close>

text \<open>
  Claim C1: for every cell inside the bounds, \<open>RayCasterFloatIsWall\<close> at a point of
  the cell is true exactly when bit \<open>y * MAP_X + x\<close> of the packed map (most
  significant bit first) is set, and the source formula tests exactly that bit.

  The code does not do this. In \<open>corner_map\<close> only the most significant bit of byte 0
  is set, which is bit \<open>0 * MAP_X + 0\<close> of the layout: the cell \<open>(0, 0)\<close> should be
  solid and the cell \<open>(1, 0)\<close> free. The source formula gives the opposite answer for
  both (lemma \<open>IsWall_in_bounds\<close> has the general rule).
\<close>

theorem IsWall_misses_layout_bit:
  "map_bit corner_map (nat (0 * MAP_X + 0))
   \<and> RayCasterFloatIsWall corner_map (1/2) (1/2) = False
   \<and> map_bit corner_map (nat (0 * MAP_X + 1)) = False
   \<and> RayCasterFloatIsWall corner_map (3/2) (1/2)"
  by (simp add: corner_map_def map_bit_def RayCasterFloatIsWall_def modff_int_def
      c_trunc_def MAP_X_def MAP_Y_def MAP_XS_def)

subsection \<open>Choosing between the two searches (C2)\<close>

text \<open>
  Claim C2: when exactly one of the two searches finds a wall and the other leaves
  its distance at the sentinel \<open>0\<close>, \<open>RayCasterFloatDistance\<close> selects the side that
  found the wall and returns its positive distance.

  The code does not do this. From \<open>(1.5, 1.5)\<close> with \<open>rayA = 0\<close> the vertical search
  is skipped (its distance stays \<open>0\<close>, its depth is \<open>maxDepth\<close>), the horizontal
  search hits the wall of \<open>demo_map\<close> at distance \<open>1/2\<close> in its first iteration, and
  the function reports the vertical side (\<open>hitDirection = 1\<close>,
  \<open>hitOffset = playerY\<close>) with distance \<open>0\<close>.
\<close>

theorem Distance_reports_sentinel_side:
  "vert_search demo_map (3/2) (3/2) 0 (1 / tan 0) = (3/2, 3/2, 0, maxDepth, 0)
   \<and> hori_search demo_map (3/2) (3/2) 0 (tan 0) = (3/2, 2, 1/2, 0, 1)
   \<and> RayCasterFloatDistance demo_map (3/2) (3/2) 0 = (0, 3/2, 1)"
  by (simp add: vert_axis hori_axis dist_axis)

subsection \<open>Columns without a wall (C3)\<close>

text \<open>
  Claim C3: if the corrected distance \<open>lineDistance * cos(deltaAngle)\<close> is \<open>\<le> 0\<close>,
  \<open>RayCasterFloatTrace\<close> returns \<open>screenY = 0\<close> and zero in all four texture fields.

  As amended: if the corrected distance is \<open>\<le> 0\<close>, \<open>RayCasterFloatTrace\<close> returns
  \<open>screenY = 0\<close>, \<open>textureY = 0\<close> and \<open>textureStep = 0\<close>; \<open>textureNo\<close> and
  \<open>textureX\<close> are assigned before the test of the distance and hold \<open>hitDirection\<close>
  and the narrowed \<open>256 * frac(hitOffset)\<close>.
\<close>

theorem trace_no_wall:
  assumes "trace_distance g_map rc screenX \<le> 0"
  shows "(case trace_hit g_map rc screenX of
            (lineDistance, hitOffset, hitDirection) \<Rightarrow>
              fst (RayCasterFloatTrace g_map rc screenX out0) =
                \<lparr>screenY = 0, textureNo = word_of_int hitDirection,
                 textureX = float_to_u8 (256 * modff_frac hitOffset),
                 textureY = 0, textureStep = 0\<rparr>)"
  using assms by (simp add: RayCasterFloatTrace_def Let_def split: prod.splits)

theorem trace_no_wall_witness:
  "trace_distance demo_map (RayCasterFloatStart rc_init 384 384 0) 160 \<le> 0
   \<and> fst (RayCasterFloatTrace demo_map (RayCasterFloatStart rc_init 384 384 0) 160 out_init) =
         \<lparr>screenY = 0, textureNo = 1, textureX = float_to_u8 (256 * modff_frac (3/2)),
          textureY = 0, textureStep = 0\<rparr>"
proof -
  have d: "trace_distance demo_map (RayCasterFloatStart rc_init 384 384 0) 160 \<le> 0"
    by (simp add: distance_axis)
  from trace_no_wall [OF d, of out_init] d show ?thesis
    by (simp add: hit_axis)
qed

text \<open>
  The claim as stated fails at the pose \<open>Start(384, 384, 0)\<close>, column 160: the
  distance is \<open>0\<close>, yet \<open>textureX\<close> is \<open>128\<close> (and \<open>textureNo\<close> is \<open>1\<close>).
\<close>

theorem trace_no_wall_counterexample:
  "trace_distance demo_map (RayCasterFloatStart rc_init 384 384 0) 160 \<le> 0
   \<and> textureX (fst (RayCasterFloatTrace demo_map (RayCasterFloatStart rc_init 384 384 0) 160 out_init)) = 128
   \<and> textureNo (fst (RayCasterFloatTrace demo_map (RayCasterFloatStart rc_init 384 384 0) 160 out_init)) = 1
   \<and> (128 :: 8 word) \<noteq> 0"
  by (simp add: RayCasterFloatTrace_def hit_axis distance_axis float_to_u8_def
      modff_frac_def c_trunc_def)

subsection \<open>The bound on screenY (C4)\<close>

text \<open>
  Claim C4: for every pose and every column, the \<open>screenY\<close> that
  \<open>RayCasterFloatTrace\<close> returns satisfies \<open>0 \<le> screenY \<le> HORIZON_HEIGHT\<close>; whenever
  the unclamped half-height \<open>INV_FACTOR / distance\<close> exceeds \<open>HORIZON_HEIGHT\<close>,
  \<open>screenY\<close> is exactly \<open>HORIZON_HEIGHT\<close>. (\<open>screenY\<close> is unsigned, so \<open>0 \<le> screenY\<close>
  holds by its type.)
\<close>

theorem trace_screenY_bounded:
  "unat (screenY (fst (RayCasterFloatTrace g_map rc screenX out0))) \<le> nat HORIZON_HEIGHT
   \<and> (0 < trace_distance g_map rc screenX \<and>
        of_int HORIZON_HEIGHT < INV_FACTOR / trace_distance g_map rc screenX
        \<longrightarrow> screenY (fst (RayCasterFloatTrace g_map rc screenX out0)) = word_of_int HORIZON_HEIGHT)"
proof -
  obtain lineDistance hitOffset hitDirection
    where hit: "trace_hit g_map rc screenX = (lineDistance, hitOffset, hitDirection)"
    by (cases "trace_hit g_map rc screenX") auto
  define distance where "distance = trace_distance g_map rc screenX"
  show ?thesis
  proof (cases "distance > 0")
    case False
    then show ?thesis
      by (simp add: RayCasterFloatTrace_def hit distance_def [symmetric] Let_def)
  next
    case pos: True
    define tmp where "tmp = INV_FACTOR / distance"
    have tmp_pos: "0 < tmp" using pos by (simp add: tmp_def INV_FACTOR_def)
    show ?thesis
    proof (cases "tmp * 2 > of_int SCREEN_HEIGHT")
      case True
      with pos tmp_pos show ?thesis
        by (simp add: RayCasterFloatTrace_def hit distance_def [symmetric] tmp_def [symmetric]
            Let_def HORIZON_HEIGHT_def)
    next
      case False
      then have small: "tmp \<le> 100" by (simp add: SCREEN_HEIGHT_def)
      with tmp_pos have "unat (float_to_u8 tmp) \<le> 100"
        by (intro unat_float_to_u8) simp_all
      with pos tmp_pos False small show ?thesis
        by (simp add: RayCasterFloatTrace_def hit distance_def [symmetric] tmp_def [symmetric]
            Let_def HORIZON_HEIGHT_def)
    qed
  qed
qed

theorem trace_screenY_bounded_witness:
  "0 < trace_distance demo_map (RayCasterFloatStart rc_init 384 384 128) 160
   \<and> of_int HORIZON_HEIGHT <
       INV_FACTOR / trace_distance demo_map (RayCasterFloatStart rc_init 384 384 128) 160
   \<and> unat (screenY (fst (RayCasterFloatTrace demo_map
              (RayCasterFloatStart rc_init 384 384 128) 160 out_init))) \<le> nat HORIZON_HEIGHT
   \<and> screenY (fst (RayCasterFloatTrace demo_map
              (RayCasterFloatStart rc_init 384 384 128) 160 out_init)) = word_of_int HORIZON_HEIGHT"
proof -
  have d: "0 < trace_distance demo_map (RayCasterFloatStart rc_init 384 384 128) 160"
    by (simp add: distance_diag)
  have h: "of_int HORIZON_HEIGHT <
       INV_FACTOR / trace_distance demo_map (RayCasterFloatStart rc_init 384 384 128) 160"
    using half_height_diag by (simp add: distance_diag HORIZON_HEIGHT_def)
  from trace_screenY_bounded
    [of demo_map "RayCasterFloatStart rc_init 384 384 128" 160 out_init] d h
  show ?thesis by blast
qed

subsection \<open>Outside the map (C5)\<close>

text \<open>
  Claim C5: \<open>RayCasterFloatIsWall\<close> treats every out-of-bounds cell (\<open>x < 0\<close>,
  \<open>y < 0\<close>, \<open>x \<ge> MAP_X - 1\<close> or \<open>y \<ge> MAP_Y - 1\<close>) as solid, and returns true for any
  coordinate whose integer floor is \<open>\<ge> MAP_X - 1\<close> or \<open>\<le> 0\<close>.

  As amended: \<open>RayCasterFloatIsWall\<close> returns true for any coordinate whose integer
  floor is \<open>\<ge> MAP_X - 1\<close> (\<open>MAP_Y - 1\<close> for \<open>y\<close>) or \<open>< 0\<close>; nothing is stated for a
  coordinate strictly between \<open>-1\<close> and \<open>0\<close>.
\<close>

theorem IsWall_out_of_bounds:
  "\<lfloor>rayX\<rfloor> \<ge> MAP_X - 1 \<or> \<lfloor>rayY\<rfloor> \<ge> MAP_Y - 1
     \<or> (\<lfloor>rayX\<rfloor> < 0 \<and> \<not> (- 1 < rayX \<and> rayX < 0))
     \<or> (\<lfloor>rayY\<rfloor> < 0 \<and> \<not> (- 1 < rayY \<and> rayY < 0))
   \<longrightarrow> RayCasterFloatIsWall g_map rayX rayY"
proof
  assume out: "\<lfloor>rayX\<rfloor> \<ge> MAP_X - 1 \<or> \<lfloor>rayY\<rfloor> \<ge> MAP_Y - 1
     \<or> (\<lfloor>rayX\<rfloor> < 0 \<and> \<not> (- 1 < rayX \<and> rayX < 0))
     \<or> (\<lfloor>rayY\<rfloor> < 0 \<and> \<not> (- 1 < rayY \<and> rayY < 0))"
  have low: "c_trunc v < 0" if "\<lfloor>v\<rfloor> < 0" and "\<not> (- 1 < v \<and> v < 0)" for v :: real
  proof -
    from that(1) have "v < 0" by (simp add: floor_less_iff)
    with that(2) have "v \<le> - 1" by simp
    then show ?thesis by (rule c_trunc_neg)
  qed
  have "c_trunc rayX < 0 \<or> c_trunc rayY < 0 \<or> c_trunc rayX \<ge> MAP_X - 1 \<or> c_trunc rayY \<ge> MAP_Y - 1"
    using out low [of rayX] low [of rayY]
      floor_ge_c_trunc [of "MAP_X - 1" rayX] floor_ge_c_trunc [of "MAP_Y - 1" rayY]
    by (auto simp: MAP_X_def MAP_Y_def)
  then show "RayCasterFloatIsWall g_map rayX rayY" by (rule IsWall_guard)
qed

theorem IsWall_out_of_bounds_witness:
  "\<lfloor>127/2 :: real\<rfloor> \<ge> MAP_X - 1
   \<and> RayCasterFloatIsWall demo_map (127/2) (1/2)
   \<and> \<lfloor>- (3/2) :: real\<rfloor> < 0 \<and> (- 1 < (- (3/2) :: real) \<and> (- (3/2) :: real) < 0) = False
   \<and> RayCasterFloatIsWall demo_map (1/2) (- (3/2))"
proof -
  have hi: "\<lfloor>127/2 :: real\<rfloor> \<ge> MAP_X - 1" by (simp add: MAP_X_def)
  have lo: "\<lfloor>- (3/2) :: real\<rfloor> < 0" by (simp add: floor_less_iff)
  have out: "\<not> (- 1 < (- (3/2) :: real) \<and> (- (3/2) :: real) < 0)" by simp
  from IsWall_out_of_bounds [of "127/2" "1/2" demo_map] hi
  have a: "RayCasterFloatIsWall demo_map (127/2) (1/2)" by blast
  from IsWall_out_of_bounds [of "1/2" "- (3/2)" demo_map] lo out
  have b: "RayCasterFloatIsWall demo_map (1/2) (- (3/2))" by blast
  from hi lo a b show ?thesis by simp
qed

text \<open>
  The claim as stated fails at the point \<open>(0.5, 0.5)\<close> of \<open>empty_map\<close>: the integer
  floor of both coordinates is \<open>0\<close>, which is \<open>\<le> 0\<close>, and the cell is not solid.
\<close>

theorem IsWall_floor_zero_counterexample:
  "\<lfloor>1/2 :: real\<rfloor> \<le> 0 \<and> RayCasterFloatIsWall empty_map (1/2) (1/2) = False"
  by (simp add: empty_map_def RayCasterFloatIsWall_def modff_int_def c_trunc_def
      MAP_X_def MAP_Y_def MAP_XS_def)

subsection \<open>Texture step and texture start (C6)\<close>

text \<open>
  Claim C6: for every pose and column with \<open>distance > 0\<close>, with
  \<open>fullH = 2 * (INV_FACTOR / distance)\<close>: \<open>textureStep\<close> is \<open>(256 / fullH) * 256\<close>; if
  \<open>fullH > SCREEN_HEIGHT\<close> then \<open>screenY = HORIZON_HEIGHT\<close> and \<open>textureY\<close> is
  \<open>((fullH - SCREEN_HEIGHT) / 2) * (256 / fullH) * 256\<close>, computed from the
  unclamped \<open>fullH\<close>; otherwise \<open>textureY = 0\<close>. The two texture fields are
  \<open>uint16_t\<close>, so each stores the narrowed value.
\<close>

theorem trace_texture_fields:
  assumes "0 < trace_distance g_map rc screenX"
  shows "(let fullH = 2 * (INV_FACTOR / trace_distance g_map rc screenX);
              out = fst (RayCasterFloatTrace g_map rc screenX out0)
          in textureStep out = float_to_u16 ((256 / fullH) * 256) \<and>
             (if fullH > of_int SCREEN_HEIGHT
              then screenY out = word_of_int HORIZON_HEIGHT \<and>
                   textureY out =
                     float_to_u16 (((fullH - of_int SCREEN_HEIGHT) / 2) * (256 / fullH) * 256)
              else textureY out = 0))"
proof -
  obtain lineDistance hitOffset hitDirection
    where hit: "trace_hit g_map rc screenX = (lineDistance, hitOffset, hitDirection)"
    by (cases "trace_hit g_map rc screenX") auto
  define distance where "distance = trace_distance g_map rc screenX"
  have pos: "0 < distance" using assms by (simp add: distance_def)
  define tmp where "tmp = INV_FACTOR / distance"
  have tmp_pos: "0 < tmp" using pos by (simp add: tmp_def INV_FACTOR_def)
  have comm: "2 * tmp = tmp * 2" by simp
  show ?thesis
    using pos tmp_pos
    by (simp add: RayCasterFloatTrace_def hit distance_def [symmetric] tmp_def [symmetric]
        Let_def comm del: mult.commute)
qed

theorem trace_texture_fields_witness:
  "0 < trace_distance demo_map (RayCasterFloatStart rc_init 384 384 128) 160
   \<and> (let fullH = 2 * (INV_FACTOR /
                 trace_distance demo_map (RayCasterFloatStart rc_init 384 384 128) 160);
           out = fst (RayCasterFloatTrace demo_map
                   (RayCasterFloatStart rc_init 384 384 128) 160 out_init)
       in textureStep out = float_to_u16 ((256 / fullH) * 256) \<and>
          (if fullH > of_int SCREEN_HEIGHT
           then screenY out = word_of_int HORIZON_HEIGHT \<and>
                textureY out =
                  float_to_u16 (((fullH - of_int SCREEN_HEIGHT) / 2) * (256 / fullH) * 256)
           else textureY out = 0))"
proof -
  have d: "0 < trace_distance demo_map (RayCasterFloatStart rc_init 384 384 128) 160"
    by (simp add: distance_diag)
  from trace_texture_fields [OF d, of out_init] d show ?thesis by simp
qed

subsection \<open>The search loops are bounded (C7)\<close>

text \<open>
  Claim C7: for every pose and every column, each of the two search loops of
  \<open>RayCasterFloatDistance\<close> executes at most \<open>maxDepth = 100\<close> iterations: it either
  hits a solid cell or stops when \<open>depth\<close> reaches \<open>maxDepth\<close>; so
  \<open>RayCasterFloatTrace\<close> always terminates.

  The theorem holds for every map, position and angle, hence for the arguments that
  \<open>RayCasterFloatTrace\<close> passes. The last component of a search result is the number
  of executions of the loop body. A loop that stops at \<open>maxDepth\<close> leaves the distance
  at \<open>0\<close>; one that stops earlier stands on a solid cell and has stored its distance.
  All loops of the model (the two normalisation loops and the search loop) are
  functions with a termination proof, so \<open>RayCasterFloatTrace\<close> yields a result for
  every input.
\<close>

theorem search_loops_bounded:
  "(case vert_search g_map pX pY rayA cotA of
      (rx, ry, dis, d, n) \<Rightarrow>
        int n \<le> maxDepth \<and>
        (d = maxDepth \<and> dis = 0 \<or>
         d < maxDepth \<and> RayCasterFloatIsWall g_map rx ry \<and> dis = P2P_DISTANCE pX pY rx ry))
   \<and> (case hori_search g_map pX pY rayA tanA of
      (rx, ry, dis, d, n) \<Rightarrow>
        int n \<le> maxDepth \<and>
        (d = maxDepth \<and> dis = 0 \<or>
         d < maxDepth \<and> RayCasterFloatIsWall g_map rx ry \<and> dis = P2P_DISTANCE pX pY rx ry))
   \<and> maxDepth = 100
   \<and> (\<exists>out. RayCasterFloatTrace g_map rc screenX out0 = (out, rc))"
proof -
  have "\<exists>out. RayCasterFloatTrace g_map rc screenX out0 = (out, rc)"
    by (simp add: RayCasterFloatTrace_def Let_def split: prod.splits)
  with vert_search_bound [of g_map pX pY rayA cotA] hori_search_bound [of g_map pX pY rayA tanA]
  show ?thesis by (simp add: maxDepth_def)
qed

subsection \<open>Trace is a function of pose, column and map (C8)\<close>

text \<open>
  Claim C8: two calls of \<open>RayCasterFloatTrace\<close> for the same column with no
  \<open>Start\<close> in between return identical results in all five outputs, and the call
  leaves the stored pose unchanged: the result is a function of the pose, the column
  and the map only.

  The second call runs in the state the first call left and finds in the output
  locations whatever stands there (\<open>out1\<close>); the results do not depend on the
  previous content of the output locations.
\<close>

theorem trace_pure:
  "snd (RayCasterFloatTrace g_map rc screenX out0) = rc
   \<and> fst (RayCasterFloatTrace g_map (snd (RayCasterFloatTrace g_map rc screenX out0)) screenX out1)
       = fst (RayCasterFloatTrace g_map rc screenX out0)"
proof -
  have state: "snd (RayCasterFloatTrace g_map rc screenX out0) = rc"
    by (simp add: RayCasterFloatTrace_def Let_def split: prod.splits)
  have "fst (RayCasterFloatTrace g_map rc screenX out1) =
        fst (RayCasterFloatTrace g_map rc screenX out0)"
    by (simp add: RayCasterFloatTrace_def Let_def split: prod.splits)
  with state show ?thesis by simp
qed

subsection \<open>Construction (C9)\<close>

text \<open>
  Claim C9: if the allocation of the float state fails inside
  \<open>RayCasterFloatConstruct\<close>, the function releases the base \<open>RayCaster\<close> it has
  already constructed through its \<open>Destruct\<close> slot and returns \<open>NULL\<close>; on success it
  returns a raycaster whose \<open>Start\<close>, \<open>Trace\<close> and \<open>Destruct\<close> slots are installed.

  In the failure case the returned heap is the one that the call through the base
  object's \<open>Destruct\<close> slot (which holds \<open>RayCasterDestruct\<close>) leaves, and the block
  of the base object is no longer allocated.
\<close>

theorem construct_failure_and_success:
  "RayCasterFloatConstruct True False h =
     Inr (None, RayCasterDestruct (brk h) (snd (RayCasterConstruct True h)))
   \<and> call_Destruct (fst (RayCasterConstruct True h)) (snd (RayCasterConstruct True h)) =
       Inr (RayCasterDestruct (brk h) (snd (RayCasterConstruct True h)))
   \<and> blocks (RayCasterDestruct (brk h) (snd (RayCasterConstruct True h))) =
       (blocks h)(brk h := None)
   \<and> (case RayCasterFloatConstruct True True h of
         Inl e \<Rightarrow> False
       | Inr (rayCaster, h') \<Rightarrow>
           rayCaster = Some (brk h) \<and>
           blocks h' (brk h) = Some (RayCaster_block
                 \<lparr>derived = Some (Suc (brk h)),
                  Start = Some RayCasterFloatStart_fn,
                  Trace = Some RayCasterFloatTrace_fn,
                  Destruct = Some RayCasterFloatDestruct_fn\<rparr>) \<and>
           blocks h' (Suc (brk h)) = Some (RayCasterFloat_block None))"
  by (simp add: RayCasterFloatConstruct_def RayCasterConstruct_def c_malloc_def
      call_Destruct_def RayCasterDestruct_def c_free_def)

subsection \<open>Narrowing to uint8_t (C10)\<close>

text \<open>
  Claim C10: in every execution of \<open>RayCasterFloatTrace\<close>, each floating value that
  is narrowed to \<open>uint8_t\<close> is within \<open>[0, 256)\<close>: the value
  \<open>256 * frac(hitOffset)\<close> stored to \<open>textureX\<close> is not negative, and the value
  \<open>INV_FACTOR / distance\<close> stored to \<open>screenY\<close> before the overshoot branch rewrites
  it does not exceed 255.

  The code does not ensure this. At the pose \<open>Start(384, 384, 128)\<close>, column 160, the
  wall of \<open>demo_map\<close> is at distance \<open>sqrt(1/2)\<close>, the distance is positive, and the
  value \<open>tmp = INV_FACTOR / distance\<close> that \<open>*screenY = tmp\<close> narrows is at least 288.
  At the pose \<open>Start(384, 256, 640)\<close>, column 160, in \<open>empty_map\<close> the ray leaves the
  map with \<open>hitOffset = -0.501\<close>, and the value narrowed into \<open>textureX\<close> is
  \<open>-128.256\<close>.
\<close>

theorem trace_narrows_out_of_range:
  "0 < trace_distance demo_map (RayCasterFloatStart rc_init 384 384 128) 160
   \<and> 255 < INV_FACTOR / trace_distance demo_map (RayCasterFloatStart rc_init 384 384 128) 160
   \<and> fits_u8 (INV_FACTOR / trace_distance demo_map (RayCasterFloatStart rc_init 384 384 128) 160)
       = False
   \<and> (case trace_hit empty_map (RayCasterFloatStart rc_init 384 256 640) 160 of
         (lineDistance, hitOffset, hitDirection) \<Rightarrow>
           256 * modff_frac hitOffset = - (16032 / 125) \<and>
           fits_u8 (256 * modff_frac hitOffset) = False)"
proof -
  have big: "288 \<le> INV_FACTOR / sqrt (1/2)" by (rule half_height_diag)
  have "sqrt (1/2) \<le> (9/8 :: real)" using sqrt_half_bounds(2) by linarith
  with sqrt_half_bounds(1) have "fits_u8 (INV_FACTOR / sqrt (1/2)) = False"
    by (rule half_height_unfit)
  with big show ?thesis by (simp add: distance_diag hit_225 frac_225)
qed

end
